theory Spec2Isabelle
  imports Complex_Main "HOL-Library.AList"
begin

section \<open>Python decimals under the default arithmetic context\<close>

text \<open>
  The services compute with \<^verbatim>\<open>decimal.Decimal\<close>. A finite decimal is a signed
  coefficient and an exponent, worth \<open>coef * 10 ^ expo\<close>; \<^verbatim>\<open>Decimal('1.25')\<close> is
  coefficient 125 with exponent -2 and \<^verbatim>\<open>Decimal('125.00')\<close> differs from
  \<^verbatim>\<open>Decimal('125')\<close> in its exponent only. The services never change the context, so
  every operation rounds to 28 significant digits, ties to even. The special values
  (NaN, the infinities, the negative zero) and the exponent limits of the context
  (beyond 10 to the power 999999) are outside this model.
\<close>

record decimal =
  coef :: int
  expo :: int

definition Dec :: "int \<Rightarrow> int \<Rightarrow> decimal" where
  "Dec c e = \<lparr>coef = c, expo = e\<rparr>"

definition dec_val :: "decimal \<Rightarrow> real" where
  "dec_val d = of_int (coef d) * 10 powi expo d"

text \<open>Python's \<^verbatim>\<open>d == 0\<close> and the truth value of a decimal look at the coefficient only.\<close>

definition is_zero :: "decimal \<Rightarrow> bool" where
  "is_zero d = (coef d = 0)"

datatype error =
    ValueError string
  | InvalidOperation
  | DivisionByZero
  | MultipleResultsFound
  | KeyError

definition prec :: nat where
  "prec = 28"

function ndigits_pos :: "int \<Rightarrow> nat" where
  "ndigits_pos n = (if n < 10 then 1 else Suc (ndigits_pos (n div 10)))"
  by pat_completeness auto
termination
  by (relation "measure nat") auto

declare ndigits_pos.simps [simp del]

text \<open>The length of the coefficient's digit string; zero is the one digit \<^verbatim>\<open>0\<close>.\<close>

definition ndigits :: "int \<Rightarrow> nat" where
  "ndigits c = ndigits_pos \<bar>c\<bar>"

text \<open>
  Division of a coefficient by \<open>m\<close>, to the nearest integer, ties to the even one.
  Python rounds the digits of the magnitude and re-attaches the sign; on a signed
  coefficient that is floor division with the same tie rule.
\<close>

definition round_half_even :: "int \<Rightarrow> int \<Rightarrow> int" where
  "round_half_even c m =
     (let q = c div m; r = c mod m
      in if 2 * r < m then q
         else if m < 2 * r then q + 1
         else if even q then q else q + 1)"

text \<open>What every arithmetic result goes through: at most \<open>prec\<close> digits are kept.\<close>

definition dec_fix :: "decimal \<Rightarrow> decimal" where
  "dec_fix d =
     (let n = ndigits (coef d)
      in if n \<le> prec then d
         else let k = n - prec; c = round_half_even (coef d) (10 ^ k)
              in if prec < ndigits c then Dec (c div 10) (expo d + int k + 1)
                 else Dec c (expo d + int k))"

definition dec_mul :: "decimal \<Rightarrow> decimal \<Rightarrow> decimal" where
  "dec_mul a b = dec_fix (Dec (coef a * coef b) (expo a + expo b))"

definition dec_add :: "decimal \<Rightarrow> decimal \<Rightarrow> decimal" where
  "dec_add a b =
     (let e = min (expo a) (expo b)
      in dec_fix (Dec (coef a * 10 ^ nat (expo a - e) + coef b * 10 ^ nat (expo b - e)) e))"

definition dec_neg :: "decimal \<Rightarrow> decimal" where
  "dec_neg a = Dec (- coef a) (expo a)"

definition dec_sub :: "decimal \<Rightarrow> decimal \<Rightarrow> decimal" where
  "dec_sub a b = dec_add a (dec_neg b)"

function strip_zeros :: "int \<Rightarrow> int \<Rightarrow> int \<Rightarrow> int \<times> int" where
  "strip_zeros c e ideal =
     (if e < ideal \<and> c mod 10 = 0 then strip_zeros (c div 10) (e + 1) ideal else (c, e))"
  by pat_completeness auto
termination
  by (relation "measure (\<lambda>(c, e, ideal). nat (ideal - e))") auto

declare strip_zeros.simps [simp del]

text \<open>
  \<^verbatim>\<open>a / b\<close>: the quotient is computed to \<open>prec + 1\<close> or \<open>prec + 2\<close> digits, with a
  sticky last digit when the division leaves a remainder, and then rounded; an exact
  quotient is brought as close to the exponent \<open>expo a - expo b\<close> as its trailing zeros
  allow.
\<close>

definition dec_div :: "decimal \<Rightarrow> decimal \<Rightarrow> error + decimal" where
  "dec_div a b =
     (if coef b = 0 then (if coef a = 0 then Inl InvalidOperation else Inl DivisionByZero)
      else if coef a = 0 then Inr (dec_fix (Dec 0 (expo a - expo b)))
      else
        let sgn = (if (coef a < 0) = (coef b < 0) then 1 else - 1);
            shift = int (ndigits (coef b)) - int (ndigits (coef a)) + int prec + 1;
            e = expo a - expo b - shift;
            n = (if 0 \<le> shift then \<bar>coef a\<bar> * 10 ^ nat shift else \<bar>coef a\<bar>);
            m = (if 0 \<le> shift then \<bar>coef b\<bar> else \<bar>coef b\<bar> * 10 ^ nat (- shift));
            q = n div m;
            r = n mod m;
            ce = (if r \<noteq> 0 then (if q mod 5 = 0 then q + 1 else q, e)
                  else strip_zeros q e (expo a - expo b))
        in Inr (dec_fix (Dec (sgn * fst ce) (snd ce))))"

definition adjusted :: "decimal \<Rightarrow> int" where
  "adjusted d = expo d + int (ndigits (coef d)) - 1"

definition rescale :: "decimal \<Rightarrow> int \<Rightarrow> decimal" where
  "rescale d e =
     (if coef d = 0 then Dec 0 e
      else if e \<le> expo d then Dec (coef d * 10 ^ nat (expo d - e)) e
      else Dec (round_half_even (coef d) (10 ^ nat (e - expo d))) e)"

text \<open>
  \<^verbatim>\<open>d.quantize(q)\<close> gives \<open>d\<close> the exponent of \<open>q\<close>, rounding ties to even, and raises
  \<^verbatim>\<open>InvalidOperation\<close> when the result would need more than \<open>prec\<close> digits.
  \<^verbatim>\<open>round(d, 2)\<close> on a decimal is \<^verbatim>\<open>d.quantize(Decimal('0.01'))\<close>.
\<close>

definition quantize :: "decimal \<Rightarrow> decimal \<Rightarrow> error + decimal" where
  "quantize d q =
     (if coef d = 0 then Inr (Dec 0 (expo q))
      else if int prec < adjusted d - expo q + 1 then Inl InvalidOperation
      else let ans = rescale d (expo q)
           in if prec < ndigits (coef ans) then Inl InvalidOperation else Inr ans)"

definition py_round :: "decimal \<Rightarrow> nat \<Rightarrow> error + decimal" where
  "py_round d n = quantize d (Dec 1 (- int n))"


section \<open>The derived-metrics helpers (metrics\_calculation.py)\<close>

definition calculate_arr :: "decimal \<Rightarrow> decimal" where
  "calculate_arr recurring_revenue = dec_mul recurring_revenue (Dec 4 0)"

definition calculate_percentage_of_revenue :: "decimal \<Rightarrow> decimal \<Rightarrow> error + decimal" where
  "calculate_percentage_of_revenue v total_revenue =
     (if is_zero total_revenue then Inr (Dec 0 0)
      else case dec_div v total_revenue of
             Inl e \<Rightarrow> Inl e
           | Inr x \<Rightarrow> quantize (dec_mul x (Dec 100 0)) (Dec 1 (- 2)))"

definition calculate_per_fte :: "decimal \<Rightarrow> int \<Rightarrow> error + decimal" where
  "calculate_per_fte v employees =
     (if employees = 0 then Inr (Dec 0 0)
      else case dec_div v (Dec employees 0) of
             Inl e \<Rightarrow> Inl e
           | Inr x \<Rightarrow> quantize x (Dec 1 (- 2)))"

definition calculate_growth_rate :: "decimal \<Rightarrow> decimal \<Rightarrow> error + decimal" where
  "calculate_growth_rate current_value previous_value =
     (if is_zero previous_value then Inr (Dec 0 0)
      else case dec_div (dec_sub current_value previous_value) previous_value of
             Inl e \<Rightarrow> Inl e
           | Inr x \<Rightarrow> quantize (dec_mul x (Dec 100 0)) (Dec 1 (- 2)))"

definition calculate_monthly_cash_burn :: "decimal \<Rightarrow> error + decimal" where
  "calculate_monthly_cash_burn cash_burn = dec_div cash_burn (Dec 3 0)"

definition calculate_runway_months :: "decimal \<Rightarrow> decimal \<Rightarrow> error + decimal" where
  "calculate_runway_months cash_balance monthly_cash_burn =
     (if is_zero monthly_cash_burn then Inr (Dec 0 0)
      else case dec_div cash_balance monthly_cash_burn of
             Inl e \<Rightarrow> Inl e
           | Inr x \<Rightarrow> quantize x (Dec 1 (- 1)))"

definition calculate_recurring_percentage_revenue :: "decimal \<Rightarrow> decimal \<Rightarrow> error + decimal" where
  "calculate_recurring_percentage_revenue recurring_revenue total_revenue =
     calculate_percentage_of_revenue recurring_revenue total_revenue"

definition calculate_revenue_per_fte :: "decimal \<Rightarrow> int \<Rightarrow> error + decimal" where
  "calculate_revenue_per_fte total_revenue employees = calculate_per_fte total_revenue employees"

definition calculate_gross_profit_per_fte :: "decimal \<Rightarrow> int \<Rightarrow> error + decimal" where
  "calculate_gross_profit_per_fte gross_profit employees = calculate_per_fte gross_profit employees"

definition calculate_revenue_growth :: "decimal \<Rightarrow> decimal \<Rightarrow> error + decimal" where
  "calculate_revenue_growth current_revenue previous_revenue =
     calculate_growth_rate current_revenue previous_revenue"

definition calculate_employee_growth_rate :: "int \<Rightarrow> int \<Rightarrow> error + decimal" where
  "calculate_employee_growth_rate current_employees previous_employees =
     calculate_growth_rate (Dec current_employees 0) (Dec previous_employees 0)"


section \<open>Exchange rates (currency\_conversion.py)\<close>

datatype date = Date int int int

text \<open>
  The external rate service is not part of the repository. One request returns
  either a failure of the request itself (\<^verbatim>\<open>requests.RequestException\<close>: no
  connection, a timeout, an HTTP error status, a body that is not JSON) or a JSON
  object; of the object only the entry \<^verbatim>\<open>rates\<close> matters, absent or an object from
  currency codes to values. \<^verbatim>\<open>Decimal(str(v))\<close> either parses the value or raises
  \<^verbatim>\<open>decimal.InvalidOperation\<close>.
\<close>

datatype rate_value = Parsed decimal | Unparseable

datatype response = RequestFailed | Body "(string \<times> rate_value) list option"

text \<open>
  The service may answer differently each time it is asked: it is a function of the
  number of requests made so far and of the request.
\<close>

type_synonym rate_api = "nat \<Rightarrow> string \<Rightarrow> string \<Rightarrow> date \<Rightarrow> response"

type_synonym rate_dict = "string \<Rightarrow> (string \<Rightarrow> (date \<Rightarrow> decimal option) option) option"

text \<open>
  The state of the module: the entries of \<^verbatim>\<open>functools.lru_cache\<close> around
  \<^verbatim>\<open>get_exchange_rate\<close> (most recently used first), the global dictionary
  \<^verbatim>\<open>exchange_rates\<close>, and two logs that the code does not keep but the claims count:
  the requests sent to the service and the calls of \<^verbatim>\<open>get_exchange_rate\<close>.
\<close>

record rate_state =
  lru :: "((string \<times> string \<times> date) \<times> decimal) list"
  exchange_rates :: rate_dict
  fetches :: "(string \<times> string \<times> date) list"
  lookups :: "(string \<times> string \<times> date) list"

definition initial_state :: rate_state where
  "initial_state = \<lparr>lru = [], exchange_rates = Map.empty, fetches = [], lookups = []\<rparr>"

definition lru_maxsize :: nat where
  "lru_maxsize = 100"

definition fetch_exchange_rate ::
  "rate_api \<Rightarrow> rate_state \<Rightarrow> string \<Rightarrow> string \<Rightarrow> date \<Rightarrow> (error + decimal) \<times> rate_state" where
  "fetch_exchange_rate api s from_currency to_currency d =
     (let s1 = s\<lparr>fetches := fetches s @ [(from_currency, to_currency, d)]\<rparr>
      in case api (length (fetches s)) from_currency to_currency d of
           RequestFailed \<Rightarrow> (Inl (ValueError ''Failed to fetch exchange rate from API''), s1)
         | Body None \<Rightarrow> (Inl (ValueError ''Invalid API response''), s1)
         | Body (Some rates) \<Rightarrow>
             (case map_of rates to_currency of
                None \<Rightarrow> (Inl (ValueError ''Invalid API response''), s1)
              | Some Unparseable \<Rightarrow> (Inl InvalidOperation, s1)
              | Some (Parsed rate) \<Rightarrow> (Inr rate, s1)))"

definition cached_rate :: "rate_dict \<Rightarrow> string \<Rightarrow> string \<Rightarrow> date \<Rightarrow> decimal option" where
  "cached_rate m from_currency to_currency d =
     (case m from_currency of
        None \<Rightarrow> None
      | Some mf \<Rightarrow> (case mf to_currency of None \<Rightarrow> None | Some mt \<Rightarrow> mt d))"

definition store_rate :: "rate_dict \<Rightarrow> string \<Rightarrow> string \<Rightarrow> date \<Rightarrow> decimal \<Rightarrow> rate_dict" where
  "store_rate m from_currency to_currency d rate =
     (let mf = (case m from_currency of None \<Rightarrow> Map.empty | Some x \<Rightarrow> x);
          mt = (case mf to_currency of None \<Rightarrow> Map.empty | Some x \<Rightarrow> x)
      in m(from_currency \<mapsto> mf(to_currency \<mapsto> mt(d \<mapsto> rate))))"

text \<open>
  The body of \<^verbatim>\<open>get_exchange_rate\<close>. \<^verbatim>\<open>if cached_rate:\<close> is a truth test: a rate
  found in the dictionary counts only when it is not zero.
\<close>

definition get_exchange_rate_body ::
  "rate_api \<Rightarrow> rate_state \<Rightarrow> string \<Rightarrow> string \<Rightarrow> date \<Rightarrow> (error + decimal) \<times> rate_state" where
  "get_exchange_rate_body api s from_currency to_currency d =
     (case cached_rate (exchange_rates s) from_currency to_currency d of
        Some r \<Rightarrow>
          (if \<not> is_zero r then (Inr r, s)
           else (case fetch_exchange_rate api s from_currency to_currency d of
                   (Inl e, s1) \<Rightarrow> (Inl e, s1)
                 | (Inr rate, s1) \<Rightarrow>
                     (Inr rate, s1\<lparr>exchange_rates :=
                        store_rate (exchange_rates s1) from_currency to_currency d rate\<rparr>)))
      | None \<Rightarrow>
          (case fetch_exchange_rate api s from_currency to_currency d of
             (Inl e, s1) \<Rightarrow> (Inl e, s1)
           | (Inr rate, s1) \<Rightarrow>
               (Inr rate, s1\<lparr>exchange_rates :=
                  store_rate (exchange_rates s1) from_currency to_currency d rate\<rparr>)))"

text \<open>
  \<^verbatim>\<open>@lru_cache(maxsize=100)\<close>: a call whose arguments are among the entries returns
  the stored result without running the body and becomes the most recent entry; any
  other call runs the body, and a result (not an exception) is stored, the least
  recently used entry making room once there are 100.
\<close>

definition get_exchange_rate ::
  "rate_api \<Rightarrow> rate_state \<Rightarrow> string \<Rightarrow> string \<Rightarrow> date \<Rightarrow> (error + decimal) \<times> rate_state" where
  "get_exchange_rate api s from_currency to_currency d =
     (let k = (from_currency, to_currency, d);
          s0 = s\<lparr>lookups := lookups s @ [k]\<rparr>
      in case map_of (lru s0) k of
           Some r \<Rightarrow> (Inr r, s0\<lparr>lru := (k, r) # filter (\<lambda>p. fst p \<noteq> k) (lru s0)\<rparr>)
         | None \<Rightarrow>
             (case get_exchange_rate_body api s0 from_currency to_currency d of
                (Inl e, s1) \<Rightarrow> (Inl e, s1)
              | (Inr r, s1) \<Rightarrow> (Inr r, s1\<lparr>lru := take lru_maxsize ((k, r) # lru s1)\<rparr>)))"

definition convert_currency ::
  "rate_api \<Rightarrow> rate_state \<Rightarrow> decimal \<Rightarrow> string \<Rightarrow> string \<Rightarrow> date \<Rightarrow> (error + decimal) \<times> rate_state" where
  "convert_currency api s amount from_currency to_currency d =
     (if from_currency = to_currency then (Inr amount, s)
      else case get_exchange_rate api s from_currency to_currency d of
             (Inl e, s1) \<Rightarrow> (Inl e, s1)
           | (Inr rate, s1) \<Rightarrow> (py_round (dec_mul amount rate) 2, s1))"


section \<open>The quarterly input and the multi-currency fan-out (data\_transformation.py)\<close>

text \<open>
  A row of \<^verbatim>\<open>metrics_input\<close>. The nine money columns declared \<^verbatim>\<open>nullable=False\<close> hold
  a decimal, \<^verbatim>\<open>debt_outstanding\<close> and \<^verbatim>\<open>customers\<close> may be null. Identifiers (UUIDs in the
  code) are natural numbers.
\<close>

record metrics_input =
  input_id :: nat
  company_id :: nat
  currency :: string
  total_revenue :: decimal
  recurring_revenue :: decimal
  gross_profit :: decimal
  sales_marketing_expense :: decimal
  total_operating_expense :: decimal
  ebitda :: decimal
  net_income :: decimal
  cash_burn :: decimal
  cash_balance :: decimal
  debt_outstanding :: "decimal option"
  employees :: int
  customers :: "int option"
  fiscal_reporting_date :: date
  fiscal_reporting_quarter :: int
  reporting_year :: int
  reporting_quarter :: int
  created_date :: date
  created_by :: string
  last_update_date :: "date option"
  last_updated_by :: "string option"

text \<open>The attribute names that key the per-currency dictionaries.\<close>

datatype attr =
    Total_revenue | Recurring_revenue | Gross_profit | Sales_marketing_expense
  | Total_operating_expense | Ebitda | Net_income | Cash_burn | Cash_balance
  | Debt_outstanding | Exchange_rate_used

definition money_fields :: "attr list" where
  "money_fields = [Total_revenue, Recurring_revenue, Gross_profit, Sales_marketing_expense,
     Total_operating_expense, Ebitda, Net_income, Cash_burn, Cash_balance, Debt_outstanding]"

text \<open>\<^verbatim>\<open>getattr(input_metrics, field)\<close>, \<open>None\<close> for a null column.\<close>

fun getattr :: "metrics_input \<Rightarrow> attr \<Rightarrow> decimal option" where
  "getattr m Total_revenue = Some (total_revenue m)"
| "getattr m Recurring_revenue = Some (recurring_revenue m)"
| "getattr m Gross_profit = Some (gross_profit m)"
| "getattr m Sales_marketing_expense = Some (sales_marketing_expense m)"
| "getattr m Total_operating_expense = Some (total_operating_expense m)"
| "getattr m Ebitda = Some (ebitda m)"
| "getattr m Net_income = Some (net_income m)"
| "getattr m Cash_burn = Some (cash_burn m)"
| "getattr m Cash_balance = Some (cash_balance m)"
| "getattr m Debt_outstanding = debt_outstanding m"
| "getattr m Exchange_rate_used = None"

text \<open>
  Python dictionaries keep insertion order and one entry per key: association lists
  under \<^const>\<open>AList.update\<close>. A value of the inner dictionary is a decimal or \<open>None\<close>.
\<close>

type_synonym financials = "(attr \<times> decimal option) list"

type_synonym converted = "(string \<times> financials) list"

text \<open>
  The inner loop of \<^verbatim>\<open>convert_financials\<close> for one target currency: every field that
  is not null goes through \<^verbatim>\<open>convert_currency\<close> on its own.
\<close>

fun convert_fields ::
  "rate_api \<Rightarrow> rate_state \<Rightarrow> metrics_input \<Rightarrow> string \<Rightarrow> attr list \<Rightarrow> financials
     \<Rightarrow> (error + financials) \<times> rate_state" where
  "convert_fields api s m target_currency [] acc = (Inr acc, s)"
| "convert_fields api s m target_currency (field # rest) acc =
     (case getattr m field of
        None \<Rightarrow> convert_fields api s m target_currency rest (AList.update field None acc)
      | Some source_value \<Rightarrow>
          (case convert_currency api s source_value (currency m) target_currency
                  (fiscal_reporting_date m) of
             (Inl e, s1) \<Rightarrow> (Inl e, s1)
           | (Inr converted_value, s1) \<Rightarrow>
               convert_fields api s1 m target_currency rest
                 (AList.update field (Some converted_value) acc)))"

text \<open>The branch for the source currency: the original values and the rate 1.0.\<close>

definition copy_fields :: "metrics_input \<Rightarrow> financials \<Rightarrow> financials" where
  "copy_fields m acc =
     AList.update Exchange_rate_used (Some (Dec 10 (- 1)))
       (fold (\<lambda>field d. AList.update field (getattr m field) d) money_fields acc)"

definition entry_of :: "converted \<Rightarrow> string \<Rightarrow> financials" where
  "entry_of cf c = (case map_of cf c of None \<Rightarrow> [] | Some d \<Rightarrow> d)"

fun convert_targets ::
  "rate_api \<Rightarrow> rate_state \<Rightarrow> metrics_input \<Rightarrow> string list \<Rightarrow> converted
     \<Rightarrow> (error + converted) \<times> rate_state" where
  "convert_targets api s m [] cf = (Inr cf, s)"
| "convert_targets api s m (target_currency # targets) cf =
     (if target_currency \<noteq> currency m then
        (case convert_fields api s m target_currency money_fields [] of
           (Inl e, s1) \<Rightarrow> (Inl e, s1)
         | (Inr d, s1) \<Rightarrow>
             (case get_exchange_rate api s1 (currency m) target_currency
                     (fiscal_reporting_date m) of
                (Inl e, s2) \<Rightarrow> (Inl e, s2)
              | (Inr exchange_rate, s2) \<Rightarrow>
                  convert_targets api s2 m targets
                    (AList.update target_currency
                       (AList.update Exchange_rate_used (Some exchange_rate) d) cf)))
      else
        convert_targets api s m targets
          (AList.update (currency m) (copy_fields m (entry_of cf (currency m))) cf))"

definition convert_financials ::
  "rate_api \<Rightarrow> rate_state \<Rightarrow> metrics_input \<Rightarrow> string list \<Rightarrow> (error + converted) \<times> rate_state" where
  "convert_financials api s m target_currencies =
     convert_targets api s m target_currencies [(currency m, [])]"

text \<open>The list \<^verbatim>\<open>transform_data\<close> passes: \<^verbatim>\<open>target_currencies = ['USD', 'CAD']\<close>.\<close>

definition target_currencies :: "string list" where
  "target_currencies = [''USD'', ''CAD'']"


section \<open>The reporting tables and the upsert step\<close>

text \<open>
  A row of \<^verbatim>\<open>reporting_financials\<close>. The persistence layer is the collaborator the
  services call, taken at its interface: a query filters the table, the constructor
  makes an object out of the keyword arguments it is given (a column that is not
  given stays null), \<^verbatim>\<open>add\<close> followed by \<^verbatim>\<open>commit\<close> stores the new objects and the
  changes made to the loaded ones. Column defaults, \<^verbatim>\<open>onupdate\<close> hooks and constraints
  of the database are not modelled.
\<close>

record reporting_financials =
  rf_id :: nat
  rf_company_id :: nat
  rf_currency :: string
  rf_exchange_rate_used :: "decimal option"
  rf_total_revenue :: "decimal option"
  rf_recurring_revenue :: "decimal option"
  rf_gross_profit :: "decimal option"
  rf_sales_marketing_expense :: "decimal option"
  rf_total_operating_expense :: "decimal option"
  rf_ebitda :: "decimal option"
  rf_net_income :: "decimal option"
  rf_cash_burn :: "decimal option"
  rf_cash_balance :: "decimal option"
  rf_debt_outstanding :: "decimal option"
  rf_fiscal_reporting_date :: "date option"
  rf_fiscal_reporting_quarter :: "int option"
  rf_reporting_year :: int
  rf_reporting_quarter :: int
  rf_created_date :: "date option"
  rf_created_by :: "string option"
  rf_last_update_date :: "date option"
  rf_last_updated_by :: "string option"

record reporting_metrics =
  rm_id :: nat
  rm_company_id :: nat
  rm_currency :: string
  enterprise_value :: "decimal option"
  arr :: "decimal option"
  recurring_percentage_revenue :: "decimal option"
  revenue_per_fte :: "decimal option"
  gross_profit_per_fte :: "decimal option"
  employee_growth_rate :: "decimal option"
  change_in_cash :: "decimal option"
  revenue_growth :: "decimal option"
  monthly_cash_burn :: "decimal option"
  runway_months :: "decimal option"
  ev_by_equity_raised_plus_debt :: "decimal option"
  sales_marketing_percentage_revenue :: "decimal option"
  total_operating_percentage_revenue :: "decimal option"
  gross_profit_margin :: "decimal option"
  valuation_to_revenue :: "decimal option"
  yoy_growth_revenue :: "decimal option"
  yoy_growth_profit :: "decimal option"
  yoy_growth_employees :: "decimal option"
  yoy_growth_ltm_revenue :: "decimal option"
  ltm_total_revenue :: "decimal option"
  ltm_gross_profit :: "decimal option"
  ltm_sales_marketing_expense :: "decimal option"
  ltm_gross_margin :: "decimal option"
  ltm_operating_expense :: "decimal option"
  ltm_ebitda :: "decimal option"
  ltm_net_income :: "decimal option"
  ltm_ebitda_margin :: "decimal option"
  ltm_net_income_margin :: "decimal option"
  rm_fiscal_reporting_date :: date
  rm_fiscal_reporting_quarter :: int
  rm_reporting_year :: int
  rm_reporting_quarter :: int
  rm_created_date :: date
  rm_created_by :: string
  rm_last_update_date :: "date option"
  rm_last_updated_by :: "string option"

record database =
  metrics_inputs :: "metrics_input list"
  financials_table :: "reporting_financials list"
  metrics_table :: "reporting_metrics list"
  next_id :: nat

text \<open>\<^verbatim>\<open>setattr(existing_financials, field, value)\<close>.\<close>

fun setattr :: "attr \<Rightarrow> decimal option \<Rightarrow> reporting_financials \<Rightarrow> reporting_financials" where
  "setattr Total_revenue v r = r\<lparr>rf_total_revenue := v\<rparr>"
| "setattr Recurring_revenue v r = r\<lparr>rf_recurring_revenue := v\<rparr>"
| "setattr Gross_profit v r = r\<lparr>rf_gross_profit := v\<rparr>"
| "setattr Sales_marketing_expense v r = r\<lparr>rf_sales_marketing_expense := v\<rparr>"
| "setattr Total_operating_expense v r = r\<lparr>rf_total_operating_expense := v\<rparr>"
| "setattr Ebitda v r = r\<lparr>rf_ebitda := v\<rparr>"
| "setattr Net_income v r = r\<lparr>rf_net_income := v\<rparr>"
| "setattr Cash_burn v r = r\<lparr>rf_cash_burn := v\<rparr>"
| "setattr Cash_balance v r = r\<lparr>rf_cash_balance := v\<rparr>"
| "setattr Debt_outstanding v r = r\<lparr>rf_debt_outstanding := v\<rparr>"
| "setattr Exchange_rate_used v r = r\<lparr>rf_exchange_rate_used := v\<rparr>"

definition setattrs :: "financials \<Rightarrow> reporting_financials \<Rightarrow> reporting_financials" where
  "setattrs fin r = fold (\<lambda>(field, v). setattr field v) fin r"

text \<open>
  \<^verbatim>\<open>ReportingFinancials(company_id=..., currency=..., reporting_year=...,
  reporting_quarter=..., **financials)\<close>.
\<close>

definition new_financials ::
  "nat \<Rightarrow> nat \<Rightarrow> string \<Rightarrow> int \<Rightarrow> int \<Rightarrow> financials \<Rightarrow> reporting_financials" where
  "new_financials fresh cid cur y q fin =
     setattrs fin
       \<lparr>rf_id = fresh, rf_company_id = cid, rf_currency = cur, rf_exchange_rate_used = None,
        rf_total_revenue = None, rf_recurring_revenue = None, rf_gross_profit = None,
        rf_sales_marketing_expense = None, rf_total_operating_expense = None,
        rf_ebitda = None, rf_net_income = None, rf_cash_burn = None, rf_cash_balance = None,
        rf_debt_outstanding = None, rf_fiscal_reporting_date = None,
        rf_fiscal_reporting_quarter = None, rf_reporting_year = y, rf_reporting_quarter = q,
        rf_created_date = None, rf_created_by = None, rf_last_update_date = None,
        rf_last_updated_by = None\<rparr>"

text \<open>The filter of the upsert query: company, currency, reporting year and quarter.\<close>

definition matches :: "nat \<Rightarrow> string \<Rightarrow> int \<Rightarrow> int \<Rightarrow> reporting_financials \<Rightarrow> bool" where
  "matches cid cur y q r =
     (rf_company_id r = cid \<and> rf_currency r = cur \<and> rf_reporting_year r = y \<and>
      rf_reporting_quarter r = q)"

definition scalar_one_or_none :: "'a list \<Rightarrow> error + 'a option" where
  "scalar_one_or_none rows =
     (case rows of [] \<Rightarrow> Inr None | [r] \<Rightarrow> Inr (Some r) | _ \<Rightarrow> Inl MultipleResultsFound)"

text \<open>
  An object the upsert returns is either one the query loaded, changed in place and
  so seen through the session from then on, or a new one that no table holds yet.
\<close>

datatype entity = Existing reporting_financials | New reporting_financials

fun row_of :: "entity \<Rightarrow> reporting_financials" where
  "row_of (Existing r) = r"
| "row_of (New r) = r"

fun update_loop ::
  "nat \<Rightarrow> int \<Rightarrow> int \<Rightarrow> converted \<Rightarrow> database \<Rightarrow> (string \<times> entity) list
     \<Rightarrow> error + database \<times> (string \<times> entity) list" where
  "update_loop cid y q [] db acc = Inr (db, acc)"
| "update_loop cid y q ((cur, fin) # items) db acc =
     (case scalar_one_or_none (filter (matches cid cur y q) (financials_table db)) of
        Inl e \<Rightarrow> Inl e
      | Inr (Some existing_financials) \<Rightarrow>
          (let r = setattrs fin existing_financials
           in update_loop cid y q items
                (db\<lparr>financials_table :=
                      map (\<lambda>x. if matches cid cur y q x then r else x) (financials_table db)\<rparr>)
                (AList.update cur (Existing r) acc))
      | Inr None \<Rightarrow>
          (let r = new_financials (next_id db) cid cur y q fin
           in update_loop cid y q items (db\<lparr>next_id := Suc (next_id db)\<rparr>)
                (AList.update cur (New r) acc)))"

definition update_reporting_financials ::
  "database \<Rightarrow> nat \<Rightarrow> int \<Rightarrow> int \<Rightarrow> converted \<Rightarrow> error + database \<times> (string \<times> entity) list" where
  "update_reporting_financials db cid y q cf = update_loop cid y q cf db []"

text \<open>\<^verbatim>\<open>session.add\<close>: a new object joins the table, a loaded one is there already.\<close>

fun session_add :: "entity \<Rightarrow> database \<Rightarrow> database" where
  "session_add (Existing r) db = db"
| "session_add (New r) db = db\<lparr>financials_table := financials_table db @ [r]\<rparr>"


section \<open>The derived-metrics calculation\<close>

definition find_input :: "database \<Rightarrow> nat \<Rightarrow> int \<Rightarrow> int \<Rightarrow> metrics_input list" where
  "find_input db cid y q =
     filter (\<lambda>m. company_id m = cid \<and> reporting_year m = y \<and> reporting_quarter m = q)
       (metrics_inputs db)"

text \<open>
  \<^verbatim>\<open>calculate_derived_metrics\<close>: the input of the period is the first row the query
  finds; the arguments formatted into the error message are left out. The date of
  creation is the clock's, a parameter here, and the identifier a fresh one.
\<close>

definition calculate_derived_metrics ::
  "database \<Rightarrow> date \<Rightarrow> nat \<Rightarrow> int \<Rightarrow> int \<Rightarrow> error + reporting_metrics" where
  "calculate_derived_metrics db today cid y q =
     (case find_input db cid y q of
        [] \<Rightarrow> Inl (ValueError ''No input metrics found for company'')
      | m # _ \<Rightarrow>
          (let arr_v = calculate_arr (recurring_revenue m)
           in case calculate_recurring_percentage_revenue (recurring_revenue m) (total_revenue m) of
                Inl e \<Rightarrow> Inl e
              | Inr rpr \<Rightarrow>
           (case calculate_revenue_per_fte (total_revenue m) (employees m) of
                Inl e \<Rightarrow> Inl e
              | Inr rpf \<Rightarrow>
           (case calculate_gross_profit_per_fte (gross_profit m) (employees m) of
                Inl e \<Rightarrow> Inl e
              | Inr gpf \<Rightarrow>
           (case calculate_monthly_cash_burn (cash_burn m) of
                Inl e \<Rightarrow> Inl e
              | Inr mcb \<Rightarrow>
           (case calculate_runway_months (cash_balance m) mcb of
                Inl e \<Rightarrow> Inl e
              | Inr rwm \<Rightarrow>
           (case calculate_percentage_of_revenue (sales_marketing_expense m) (total_revenue m) of
                Inl e \<Rightarrow> Inl e
              | Inr smp \<Rightarrow>
           (case calculate_percentage_of_revenue (total_operating_expense m) (total_revenue m) of
                Inl e \<Rightarrow> Inl e
              | Inr opr \<Rightarrow>
           (case calculate_percentage_of_revenue (gross_profit m) (total_revenue m) of
                Inl e \<Rightarrow> Inl e
              | Inr gpm \<Rightarrow>
                Inr \<lparr>rm_id = next_id db, rm_company_id = cid, rm_currency = currency m,
                 enterprise_value = None,
                 arr = Some arr_v,
                 recurring_percentage_revenue = Some rpr,
                 revenue_per_fte = Some rpf,
                 gross_profit_per_fte = Some gpf,
                 employee_growth_rate = None,
                 change_in_cash = None,
                 revenue_growth = None,
                 monthly_cash_burn = Some mcb,
                 runway_months = Some rwm,
                 ev_by_equity_raised_plus_debt = None,
                 sales_marketing_percentage_revenue = Some smp,
                 total_operating_percentage_revenue = Some opr,
                 gross_profit_margin = Some gpm,
                 valuation_to_revenue = None,
                 yoy_growth_revenue = None,
                 yoy_growth_profit = None,
                 yoy_growth_employees = None,
                 yoy_growth_ltm_revenue = None,
                 ltm_total_revenue = None,
                 ltm_gross_profit = None,
                 ltm_sales_marketing_expense = None,
                 ltm_gross_margin = None,
                 ltm_operating_expense = None,
                 ltm_ebitda = None,
                 ltm_net_income = None,
                 ltm_ebitda_margin = None,
                 ltm_net_income_margin = None,
                 rm_fiscal_reporting_date = fiscal_reporting_date m,
                 rm_fiscal_reporting_quarter = fiscal_reporting_quarter m,
                 rm_reporting_year = y, rm_reporting_quarter = q,
                 rm_created_date = today, rm_created_by = ''MetricsCalculationService'',
                 rm_last_update_date = None, rm_last_updated_by = None\<rparr>)))))))))"

text \<open>\<^verbatim>\<open>sum(...)\<close> starts from the integer 0 and adds from the left.\<close>

definition py_sum :: "decimal list \<Rightarrow> decimal" where
  "py_sum xs = foldl dec_add (Dec 0 0) xs"

definition calculate_ltm_metrics :: "metrics_input list \<Rightarrow> error + (string \<times> decimal) list" where
  "calculate_ltm_metrics quarterly_metrics =
     (if length quarterly_metrics \<noteq> 4
      then Inl (ValueError ''LTM calculations require exactly 4 quarters of data'')
      else
        let ltm_total_revenue_v = py_sum (map total_revenue quarterly_metrics);
            ltm_gross_profit_v = py_sum (map gross_profit quarterly_metrics);
            ltm_sales_marketing_expense_v = py_sum (map sales_marketing_expense quarterly_metrics);
            ltm_operating_expense_v = py_sum (map total_operating_expense quarterly_metrics);
            ltm_ebitda_v = py_sum (map ebitda quarterly_metrics);
            ltm_net_income_v = py_sum (map net_income quarterly_metrics)
        in case calculate_percentage_of_revenue ltm_gross_profit_v ltm_total_revenue_v of
             Inl e \<Rightarrow> Inl e
           | Inr gross_margin \<Rightarrow>
        (case calculate_percentage_of_revenue ltm_ebitda_v ltm_total_revenue_v of
             Inl e \<Rightarrow> Inl e
           | Inr ebitda_margin \<Rightarrow>
        (case calculate_percentage_of_revenue ltm_net_income_v ltm_total_revenue_v of
             Inl e \<Rightarrow> Inl e
           | Inr net_income_margin \<Rightarrow>
             Inr [(''ltm_total_revenue'', ltm_total_revenue_v),
                  (''ltm_gross_profit'', ltm_gross_profit_v),
                  (''ltm_sales_marketing_expense'', ltm_sales_marketing_expense_v),
                  (''ltm_gross_margin'', gross_margin),
                  (''ltm_operating_expense'', ltm_operating_expense_v),
                  (''ltm_ebitda'', ltm_ebitda_v),
                  (''ltm_net_income'', ltm_net_income_v),
                  (''ltm_ebitda_margin'', ebitda_margin),
                  (''ltm_net_income_margin'', net_income_margin)])))"


section \<open>The orchestration\<close>

text \<open>
  \<^verbatim>\<open>transform_data\<close>. Nothing is stored before \<^verbatim>\<open>commit\<close>: a run that raises leaves
  the database as it was, while what it put into the rate caches stays. The metrics
  service reads the same database. Every run adds a new metrics row.
\<close>

definition transform_data ::
  "rate_api \<Rightarrow> date \<Rightarrow> rate_state \<Rightarrow> database \<Rightarrow> nat \<Rightarrow> int \<Rightarrow> int
     \<Rightarrow> (error + reporting_financials \<times> reporting_metrics) \<times> rate_state \<times> database" where
  "transform_data api today s db cid y q =
     (case scalar_one_or_none (find_input db cid y q) of
        Inl e \<Rightarrow> (Inl e, s, db)
      | Inr None \<Rightarrow>
          (Inl (ValueError
             ''No input metrics found for the specified company and reporting period''), s, db)
      | Inr (Some input_metrics) \<Rightarrow>
          (case convert_financials api s input_metrics target_currencies of
             (Inl e, s1) \<Rightarrow> (Inl e, s1, db)
           | (Inr converted_financials, s1) \<Rightarrow>
               (case update_reporting_financials db cid y q converted_financials of
                  Inl e \<Rightarrow> (Inl e, s1, db)
                | Inr (db1, reporting) \<Rightarrow>
                    (case calculate_derived_metrics db1 today cid y q of
                       Inl e \<Rightarrow> (Inl e, s1, db)
                     | Inr metrics \<Rightarrow>
                         (let db2 = fold session_add (map snd reporting) db1;
                              db3 = db2\<lparr>metrics_table := metrics_table db2 @ [metrics],
                                        next_id := Suc (next_id db2)\<rparr>
                          in case map_of reporting (currency input_metrics) of
                               None \<Rightarrow> (Inl KeyError, s1, db3)
                             | Some inst \<Rightarrow> (Inr (row_of inst, metrics), s1, db3))))))"


section \<open>Reading a stored row, and sample data\<close>

text \<open>The value column of a stored row that an attribute name denotes.\<close>

fun rf_get :: "attr \<Rightarrow> reporting_financials \<Rightarrow> decimal option" where
  "rf_get Total_revenue r = rf_total_revenue r"
| "rf_get Recurring_revenue r = rf_recurring_revenue r"
| "rf_get Gross_profit r = rf_gross_profit r"
| "rf_get Sales_marketing_expense r = rf_sales_marketing_expense r"
| "rf_get Total_operating_expense r = rf_total_operating_expense r"
| "rf_get Ebitda r = rf_ebitda r"
| "rf_get Net_income r = rf_net_income r"
| "rf_get Cash_burn r = rf_cash_burn r"
| "rf_get Cash_balance r = rf_cash_balance r"
| "rf_get Debt_outstanding r = rf_debt_outstanding r"
| "rf_get Exchange_rate_used r = rf_exchange_rate_used r"

text \<open>
  A rate service that always answers with 1.08 for USD and 1.47 for CAD, and one
  quarter of a company reporting in the currency given, for 2023 Q1 or another period.
\<close>

definition sample_api :: rate_api where
  "sample_api n from_currency to_currency d =
     Body (Some [(''USD'', Parsed (Dec 108 (- 2))), (''CAD'', Parsed (Dec 147 (- 2)))])"

definition sample_input :: "string \<Rightarrow> int \<Rightarrow> int \<Rightarrow> metrics_input" where
  "sample_input cur y q =
     \<lparr>input_id = 1, company_id = 7, currency = cur,
      total_revenue = Dec 100000000 (- 2), recurring_revenue = Dec 80000000 (- 2),
      gross_profit = Dec 60000000 (- 2), sales_marketing_expense = Dec 20000000 (- 2),
      total_operating_expense = Dec 50000000 (- 2), ebitda = Dec 30000000 (- 2),
      net_income = Dec 25000000 (- 2), cash_burn = Dec 30000000 (- 2),
      cash_balance = Dec 100000000 (- 2), debt_outstanding = None, employees = 50,
      customers = None, fiscal_reporting_date = Date y (3 * q) 30,
      fiscal_reporting_quarter = q, reporting_year = y, reporting_quarter = q,
      created_date = Date 2023 4 1, created_by = ''intake'', last_update_date = None,
      last_updated_by = None\<rparr>"

definition sample_row :: "string \<Rightarrow> reporting_financials" where
  "sample_row cur =
     \<lparr>rf_id = 3, rf_company_id = 7, rf_currency = cur,
      rf_exchange_rate_used = Some (Dec 1250000 (- 6)),
      rf_total_revenue = Some (Dec 5 0), rf_recurring_revenue = Some (Dec 4 0),
      rf_gross_profit = Some (Dec 3 0), rf_sales_marketing_expense = Some (Dec 2 0),
      rf_total_operating_expense = Some (Dec 2 0), rf_ebitda = Some (Dec 1 0),
      rf_net_income = Some (Dec 1 0), rf_cash_burn = Some (Dec 1 0),
      rf_cash_balance = Some (Dec 9 0), rf_debt_outstanding = Some (Dec 7 0),
      rf_fiscal_reporting_date = Some (Date 2023 3 30), rf_fiscal_reporting_quarter = Some 1,
      rf_reporting_year = 2023, rf_reporting_quarter = 1,
      rf_created_date = Some (Date 2023 4 2), rf_created_by = Some ''analyst'',
      rf_last_update_date = Some (Date 2023 4 3), rf_last_updated_by = Some ''analyst''\<rparr>"

definition sample_db :: "string \<Rightarrow> database" where
  "sample_db cur =
     \<lparr>metrics_inputs = [sample_input cur 2022 2, sample_input cur 2022 3,
        sample_input cur 2022 4, sample_input cur 2023 1],
      financials_table = [sample_row ''CAD''], metrics_table = [], next_id = 10\<rparr>"


text \<open>
  A rate service whose first request fails, whose second answers with a value that
  is no number, and which answers like \<^const>\<open>sample_api\<close> from then on.
\<close>

definition flaky_api :: rate_api where
  "flaky_api n from_currency to_currency d =
     (if n = 0 then RequestFailed
      else if n = 1 then Body (Some [(''USD'', Unparseable), (''CAD'', Unparseable)])
      else sample_api n from_currency to_currency d)"


section \<open>The specification's words, for comparison\<close>





section \<open>Sequences of lookups\<close>

text \<open>
  Any number of calls of \<^verbatim>\<open>get_exchange_rate\<close>, one per key of the list, whatever they
  return. The two caches agree when every entry of the \<^verbatim>\<open>lru_cache\<close> is the rate that
  the dictionary holds for the key: so it is at start-up, when both are empty, and so
  it stays.
\<close>

fun lookup_all :: "rate_api \<Rightarrow> rate_state \<Rightarrow> (string \<times> string \<times> date) list \<Rightarrow> rate_state" where
  "lookup_all api s [] = s"
| "lookup_all api s ((f, t, d) # ks) = lookup_all api (snd (get_exchange_rate api s f t d)) ks"

definition caches_agree :: "rate_state \<Rightarrow> bool" where
  "caches_agree s =
     (\<forall>f t d r. map_of (lru s) (f, t, d) = Some r \<longrightarrow> cached_rate (exchange_rates s) f t d = Some r)"


section \<open>The fan-out at a given rate\<close>







section \<open>Zero guards of the ratio helpers\<close>

text \<open>
  C7. Every division-based helper returns the decimal zero when its denominator is
  zero, whatever the numerator: the percentage of revenue, the per-employee value, the
  growth rate and the runway. A decimal denominator is zero when its coefficient is,
  with any exponent (\<^verbatim>\<open>Decimal('0')\<close>, \<^verbatim>\<open>Decimal('0.00')\<close>); the employee count is an
  integer. No helper reaches its division, so none raises.
\<close>

theorem zero_guards:
  "calculate_percentage_of_revenue x (Dec 0 e) = Inr (Dec 0 0) \<and>
   calculate_per_fte x 0 = Inr (Dec 0 0) \<and>
   calculate_growth_rate x (Dec 0 e) = Inr (Dec 0 0) \<and>
   calculate_runway_months x (Dec 0 e) = Inr (Dec 0 0)"
  by (simp add: calculate_percentage_of_revenue_def calculate_per_fte_def
      calculate_growth_rate_def calculate_runway_months_def is_zero_def Dec_def)


section \<open>The native currency in the fan-out\<close>





section \<open>The upsert step on an existing record\<close>

lemma setattr_frame:
  "rf_id (setattr a v r) = rf_id r"
  "rf_company_id (setattr a v r) = rf_company_id r"
  "rf_currency (setattr a v r) = rf_currency r"
  "rf_reporting_year (setattr a v r) = rf_reporting_year r"
  "rf_reporting_quarter (setattr a v r) = rf_reporting_quarter r"
  "rf_fiscal_reporting_date (setattr a v r) = rf_fiscal_reporting_date r"
  "rf_fiscal_reporting_quarter (setattr a v r) = rf_fiscal_reporting_quarter r"
  "rf_created_date (setattr a v r) = rf_created_date r"
  "rf_created_by (setattr a v r) = rf_created_by r"
  "rf_last_update_date (setattr a v r) = rf_last_update_date r"
  "rf_last_updated_by (setattr a v r) = rf_last_updated_by r"
  by (cases a; simp)+

lemma setattrs_frame:
  "rf_id (setattrs fin r) = rf_id r"
  "rf_company_id (setattrs fin r) = rf_company_id r"
  "rf_currency (setattrs fin r) = rf_currency r"
  "rf_reporting_year (setattrs fin r) = rf_reporting_year r"
  "rf_reporting_quarter (setattrs fin r) = rf_reporting_quarter r"
  "rf_fiscal_reporting_date (setattrs fin r) = rf_fiscal_reporting_date r"
  "rf_fiscal_reporting_quarter (setattrs fin r) = rf_fiscal_reporting_quarter r"
  "rf_created_date (setattrs fin r) = rf_created_date r"
  "rf_created_by (setattrs fin r) = rf_created_by r"
  "rf_last_update_date (setattrs fin r) = rf_last_update_date r"
  "rf_last_updated_by (setattrs fin r) = rf_last_updated_by r"
  unfolding setattrs_def
  by (induction fin arbitrary: r; simp add: setattr_frame split: prod.splits)+

lemma rf_get_setattr: "rf_get a (setattr b v r) = (if a = b then v else rf_get a r)"
  by (cases a; cases b; simp)

lemma rf_get_setattrs:
  "rf_get a (setattrs fin r) = (case map_of (rev fin) a of Some v \<Rightarrow> v | None \<Rightarrow> rf_get a r)"
  unfolding setattrs_def
proof (induction fin arbitrary: r)
  case Nil
  then show ?case by simp
next
  case (Cons p fin)
  obtain b v where p: "p = (b, v)" by (cases p)
  show ?case
    by (simp add: p Cons.IH rf_get_setattr map_add_def split: option.splits)
qed

lemma matches_setattrs: "matches cid cur y q (setattrs fin r) = matches cid cur y q r"
  by (simp add: matches_def setattrs_frame)

lemma filter_replace_same:
  "P c \<Longrightarrow> filter P (map (\<lambda>x. if P x then c else x) xs) = map (\<lambda>_. c) (filter P xs)"
  by (induction xs) auto

lemma filter_replace_other:
  "\<not> Q c \<Longrightarrow> (\<And>x. P x \<Longrightarrow> \<not> Q x)
     \<Longrightarrow> filter Q (map (\<lambda>x. if P x then c else x) xs) = filter Q xs"
  by (induction xs) auto

lemma matches_other: "cur \<noteq> cur' \<Longrightarrow> matches cid cur y q x \<Longrightarrow> \<not> matches cid cur' y q x"
  by (auto simp: matches_def)

lemma filter_single: "filter P xs = [x] \<Longrightarrow> P x"
proof -
  assume a: "filter P xs = [x]"
  have "x \<in> set (filter P xs)" unfolding a by simp
  then show "P x" by simp
qed

lemma scalar_one_Some: "scalar_one_or_none xs = Inr (Some x) \<Longrightarrow> xs = [x]"
  by (auto simp: scalar_one_or_none_def split: list.splits)

lemma scalar_one_None: "scalar_one_or_none xs = Inr None \<Longrightarrow> xs = []"
  by (auto simp: scalar_one_or_none_def split: list.splits)

lemma update_loop_other:
  "update_loop cid y q items db acc = Inr (db', res) \<Longrightarrow> cur \<notin> fst ` set items
     \<Longrightarrow> map_of res cur = map_of acc cur \<and>
         filter (matches cid cur y q) (financials_table db') =
         filter (matches cid cur y q) (financials_table db)"
proof (induction items arbitrary: db acc)
  case Nil
  then show ?case by simp
next
  case (Cons p items)
  obtain c fin where p: "p = (c, fin)" by (cases p)
  from Cons.prems(2) p have neq: "c \<noteq> cur" and rest: "cur \<notin> fst ` set items" by auto
  show ?case
  proof (cases "scalar_one_or_none (filter (matches cid c y q) (financials_table db))")
    case (Inl e)
    with Cons.prems(1) p show ?thesis by simp
  next
    case (Inr found)
    show ?thesis
    proof (cases found)
      case None
      with Inr Cons.prems(1) p have
        "update_loop cid y q items (db\<lparr>next_id := Suc (next_id db)\<rparr>)
           (AList.update c (New (new_financials (next_id db) cid c y q fin)) acc) = Inr (db', res)"
        by (simp add: Let_def)
      from Cons.IH[OF this rest] neq show ?thesis by (simp add: update_conv')
    next
      case (Some ex)
      let ?r = "setattrs fin ex"
      from Inr Some have mex: "matches cid c y q ex"
        using scalar_one_Some filter_single by metis
      from Some Inr Cons.prems(1) p have
        "update_loop cid y q items
           (db\<lparr>financials_table := map (\<lambda>x. if matches cid c y q x then ?r else x) (financials_table db)\<rparr>)
           (AList.update c (Existing ?r) acc) = Inr (db', res)"
        by (simp add: Let_def)
      from Cons.IH[OF this rest] neq
      have "map_of res cur = map_of acc cur"
        and "filter (matches cid cur y q) (financials_table db') =
             filter (matches cid cur y q) (map (\<lambda>x. if matches cid c y q x then ?r else x) (financials_table db))"
        by (simp_all add: update_conv')
      moreover have "\<not> matches cid cur y q ?r"
        using mex neq matches_other[of c cur] by (simp add: matches_setattrs)
      ultimately show ?thesis
        using filter_replace_other[of "matches cid cur y q" ?r "matches cid c y q" "financials_table db"]
              matches_other[OF neq] by simp
    qed
  qed
qed

lemma update_loop_existing:
  "update_loop cid y q items db acc = Inr (db', res) \<Longrightarrow> distinct (map fst items)
     \<Longrightarrow> (cur, fin) \<in> set items
     \<Longrightarrow> filter (matches cid cur y q) (financials_table db) = [r]
     \<Longrightarrow> map_of res cur = Some (Existing (setattrs fin r)) \<and>
         filter (matches cid cur y q) (financials_table db') = [setattrs fin r]"
proof (induction items arbitrary: db acc)
  case Nil
  then show ?case by simp
next
  case (Cons p items)
  obtain c f where p: "p = (c, f)" by (cases p)
  show ?case
  proof (cases "c = cur")
    case True
    with Cons.prems(2,3) p have f: "f = fin" and rest: "cur \<notin> fst ` set items"
      by (auto simp: image_iff)
    let ?r = "setattrs fin r"
    have m: "matches cid cur y q r"
      using Cons.prems(4) by (rule filter_single)
    from Cons.prems(1,4) p True f have step:
      "update_loop cid y q items
         (db\<lparr>financials_table := map (\<lambda>x. if matches cid cur y q x then ?r else x) (financials_table db)\<rparr>)
         (AList.update cur (Existing ?r) acc) = Inr (db', res)"
      by (simp add: scalar_one_or_none_def Let_def)
    from update_loop_other[OF step rest]
    have "map_of res cur = Some (Existing ?r)"
      and "filter (matches cid cur y q) (financials_table db') =
           filter (matches cid cur y q) (map (\<lambda>x. if matches cid cur y q x then ?r else x) (financials_table db))"
      by (simp_all add: update_conv')
    moreover have "matches cid cur y q ?r" using m by (simp add: matches_setattrs)
    ultimately show ?thesis
      using filter_replace_same[of "matches cid cur y q" ?r "financials_table db"] Cons.prems(4)
      by simp
  next
    case False
    with Cons.prems(2,3) p have mem: "(cur, fin) \<in> set items" and d: "distinct (map fst items)"
      by auto
    show ?thesis
    proof (cases "scalar_one_or_none (filter (matches cid c y q) (financials_table db))")
      case (Inl e)
      with Cons.prems(1) p show ?thesis by simp
    next
      case (Inr found)
      show ?thesis
      proof (cases found)
        case None
        with Inr Cons.prems(1) p have
          "update_loop cid y q items (db\<lparr>next_id := Suc (next_id db)\<rparr>)
             (AList.update c (New (new_financials (next_id db) cid c y q f)) acc) = Inr (db', res)"
          by (simp add: Let_def)
        from Cons.IH[OF this d mem] Cons.prems(4) show ?thesis by simp
      next
        case (Some ex)
        let ?e = "setattrs f ex"
        from Inr Some have mex: "matches cid c y q ex"
          using scalar_one_Some filter_single by metis
        from Some Inr Cons.prems(1) p have step:
          "update_loop cid y q items
             (db\<lparr>financials_table := map (\<lambda>x. if matches cid c y q x then ?e else x) (financials_table db)\<rparr>)
             (AList.update c (Existing ?e) acc) = Inr (db', res)"
          by (simp add: Let_def)
        have "\<not> matches cid cur y q ?e"
          using mex False matches_other[of c cur] by (simp add: matches_setattrs)
        then have "filter (matches cid cur y q)
            (map (\<lambda>x. if matches cid c y q x then ?e else x) (financials_table db)) = [r]"
          using filter_replace_other[of "matches cid cur y q" ?e "matches cid c y q" "financials_table db"]
                matches_other[OF False] Cons.prems(4) by simp
        with Cons.IH[OF step d mem] show ?thesis by simp
      qed
    qed
  qed
qed

text \<open>
  C10. When the upsert finds the record of a currency, the object it returns and
  leaves in the session is that record with the entries of the currency's dictionary
  assigned and nothing else: identifier, company, currency, reporting year and quarter,
  fiscal date and quarter, creation and update stamps and authors are those of the
  stored record, and a value column that the dictionary does not name keeps its value.
\<close>

theorem update_assigns_only_converted_fields:
  assumes run: "update_reporting_financials db cid y q cf = Inr (db', res)"
    and keys: "distinct (map fst cf)"
    and entry: "(cur, fin) \<in> set cf"
    and found: "filter (matches cid cur y q) (financials_table db) = [r]"
  shows "\<exists>r'. map_of res cur = Some (Existing r') \<and>
           filter (matches cid cur y q) (financials_table db') = [r'] \<and>
           rf_id r' = rf_id r \<and> rf_company_id r' = rf_company_id r \<and>
           rf_currency r' = rf_currency r \<and> rf_reporting_year r' = rf_reporting_year r \<and>
           rf_reporting_quarter r' = rf_reporting_quarter r \<and>
           rf_fiscal_reporting_date r' = rf_fiscal_reporting_date r \<and>
           rf_fiscal_reporting_quarter r' = rf_fiscal_reporting_quarter r \<and>
           rf_created_date r' = rf_created_date r \<and> rf_created_by r' = rf_created_by r \<and>
           rf_last_update_date r' = rf_last_update_date r \<and>
           rf_last_updated_by r' = rf_last_updated_by r \<and>
           (\<forall>a. rf_get a r' = (case map_of (rev fin) a of Some v \<Rightarrow> v | None \<Rightarrow> rf_get a r))"
proof -
  from run have "update_loop cid y q cf db [] = Inr (db', res)"
    by (simp add: update_reporting_financials_def)
  from update_loop_existing[OF this keys entry found]
  show ?thesis by (simp add: setattrs_frame rf_get_setattrs)
qed

theorem update_assigns_only_converted_fields_witness:
  "case update_reporting_financials (sample_db ''USD'') 7 2023 1
          [(''CAD'', [(Total_revenue, Some (Dec 147 0)), (Exchange_rate_used, Some (Dec 147 (- 2)))])] of
     Inl e \<Rightarrow> False
   | Inr (db', res) \<Rightarrow>
       (\<exists>r'. map_of res ''CAD'' = Some (Existing r') \<and>
             rf_total_revenue r' = Some (Dec 147 0) \<and>
             rf_cash_balance r' = rf_cash_balance (sample_row ''CAD'') \<and>
             rf_last_update_date r' = rf_last_update_date (sample_row ''CAD'') \<and>
             rf_last_updated_by r' = rf_last_updated_by (sample_row ''CAD''))"
proof -
  let ?cf = "[(''CAD'', [(Total_revenue, Some (Dec 147 0)), (Exchange_rate_used, Some (Dec 147 (- 2)))])]"
  let ?run = "update_reporting_financials (sample_db ''USD'') 7 2023 1 ?cf"
  have "\<not> isl ?run" by code_simp
  then obtain db' res where run: "?run = Inr (db', res)" by (cases ?run) auto
  have keys: "distinct (map fst ?cf)" by simp
  have entry: "(''CAD'', [(Total_revenue, Some (Dec 147 0)), (Exchange_rate_used, Some (Dec 147 (- 2)))]) \<in> set ?cf"
    by simp
  have found: "filter (matches 7 ''CAD'' 2023 1) (financials_table (sample_db ''USD'')) = [sample_row ''CAD'']"
    by code_simp
  from update_assigns_only_converted_fields[OF run keys entry found]
  obtain r' where r': "map_of res ''CAD'' = Some (Existing r')"
    "rf_last_update_date r' = rf_last_update_date (sample_row ''CAD'')"
    "rf_last_updated_by r' = rf_last_updated_by (sample_row ''CAD'')"
    "\<forall>a. rf_get a r' = (case map_of (rev [(Total_revenue, Some (Dec 147 0)), (Exchange_rate_used, Some (Dec 147 (- 2)))]) a of
            Some v \<Rightarrow> v | None \<Rightarrow> rf_get a (sample_row ''CAD''))"
    by blast
  from r'(4) have "rf_get Total_revenue r' = Some (Dec 147 0)"
    and "rf_get Cash_balance r' = rf_get Cash_balance (sample_row ''CAD'')"
    by simp_all
  with r'(1,2,3) run show ?thesis by auto
qed


section \<open>Digits and rounding\<close>














lemma dec_val_Dec: "dec_val (Dec c e) = of_int c * 10 powi e"
  by (simp add: dec_val_def Dec_def)






section \<open>Conversion of one amount\<close>





section \<open>A rate that cannot be had\<close>





section \<open>The two caches over any number of lookups\<close>

lemma cached_rate_store:
  "cached_rate (store_rate m f t d r) f' t' d' =
     (if f' = f \<and> t' = t \<and> d' = d then Some r else cached_rate m f' t' d')"
  by (auto simp: cached_rate_def store_rate_def Let_def split: option.splits)

lemma map_of_take_Some: "map_of (take n xs) k = Some v \<Longrightarrow> map_of xs k = Some v"
proof (induction xs arbitrary: n)
  case Nil
  then show ?case by simp
next
  case (Cons p xs)
  show ?case
  proof (cases n)
    case 0
    with Cons.prems show ?thesis by simp
  next
    case (Suc j)
    with Cons.prems Cons.IH[of j] show ?thesis by (cases p) (auto split: if_splits)
  qed
qed

lemma map_of_touch:
  "map_of ((k, r) # filter (\<lambda>p. fst p \<noteq> k) xs) k' = (if k' = k then Some r else map_of xs k')"
  by (induction xs) auto

text \<open>What one fetch does to the state.\<close>

lemma fetch_state:
  "fetch_exchange_rate api s f t d = (res, s1) \<Longrightarrow>
     s1 = s\<lparr>fetches := fetches s @ [(f, t, d)]\<rparr>"
  by (auto simp: fetch_exchange_rate_def Let_def
      split: response.splits option.splits rate_value.splits)

text \<open>The body: a rate held and not zero is returned with no request.\<close>

lemma body_cached:
  "cached_rate (exchange_rates s) f t d = Some r \<Longrightarrow> \<not> is_zero r \<Longrightarrow>
     get_exchange_rate_body api s f t d = (Inr r, s)"
  by (simp add: get_exchange_rate_body_def)

lemma body_cases:
  assumes "get_exchange_rate_body api s f t d = (res, s1)"
  shows "(res = Inr (the (cached_rate (exchange_rates s) f t d)) \<and> s1 = s \<and>
          (\<exists>r. cached_rate (exchange_rates s) f t d = Some r \<and> \<not> is_zero r)) \<or>
         ((\<exists>e. res = Inl e) \<and> s1 = s\<lparr>fetches := fetches s @ [(f, t, d)]\<rparr> \<and>
          (\<forall>r. cached_rate (exchange_rates s) f t d = Some r \<longrightarrow> is_zero r)) \<or>
         (\<exists>r. res = Inr r \<and>
              s1 = s\<lparr>fetches := fetches s @ [(f, t, d)],
                     exchange_rates := store_rate (exchange_rates s) f t d r\<rparr> \<and>
          (\<forall>r. cached_rate (exchange_rates s) f t d = Some r \<longrightarrow> is_zero r))"
proof (cases "\<exists>r. cached_rate (exchange_rates s) f t d = Some r \<and> \<not> is_zero r")
  case True
  then obtain r where r: "cached_rate (exchange_rates s) f t d = Some r" "\<not> is_zero r" by blast
  from body_cached[OF r, of api] assms r show ?thesis by simp
next
  case False
  then have z: "\<forall>r. cached_rate (exchange_rates s) f t d = Some r \<longrightarrow> is_zero r" by blast
  obtain fr fs where fe: "fetch_exchange_rate api s f t d = (fr, fs)" by (cases "fetch_exchange_rate api s f t d")
  from fetch_state[OF fe] have fs: "fs = s\<lparr>fetches := fetches s @ [(f, t, d)]\<rparr>" .
  have b: "get_exchange_rate_body api s f t d =
      (case fr of Inl e \<Rightarrow> (Inl e, fs)
       | Inr rate \<Rightarrow> (Inr rate, fs\<lparr>exchange_rates := store_rate (exchange_rates fs) f t d rate\<rparr>))"
    using z fe by (auto simp: get_exchange_rate_body_def split: option.splits sum.splits)
  show ?thesis
  proof (cases fr)
    case (Inl e)
    with b assms fs z show ?thesis by auto
  next
    case (Inr rate)
    with b assms fs z show ?thesis by auto
  qed
qed

lemma map_of_filter_other:
  "k' \<noteq> k \<Longrightarrow> map_of (filter (\<lambda>p. fst p \<noteq> k) xs) k' = map_of xs k'"
  by (induction xs) auto

text \<open>The four ways a lookup can go.\<close>

lemma get_cases:
  assumes g: "get_exchange_rate api s f t d = (res, s')"
  obtains
    (hit) r where "map_of (lru s) (f, t, d) = Some r" "res = Inr r"
      "s' = s\<lparr>lookups := lookups s @ [(f, t, d)],
              lru := ((f, t, d), r) # filter (\<lambda>p. fst p \<noteq> (f, t, d)) (lru s)\<rparr>"
  | (held) r where "map_of (lru s) (f, t, d) = None"
      "cached_rate (exchange_rates s) f t d = Some r" "\<not> is_zero r" "res = Inr r"
      "s' = s\<lparr>lookups := lookups s @ [(f, t, d)],
              lru := take lru_maxsize (((f, t, d), r) # lru s)\<rparr>"
  | (failed) e where "map_of (lru s) (f, t, d) = None"
      "\<forall>r. cached_rate (exchange_rates s) f t d = Some r \<longrightarrow> is_zero r" "res = Inl e"
      "s' = s\<lparr>lookups := lookups s @ [(f, t, d)], fetches := fetches s @ [(f, t, d)]\<rparr>"
  | (fetched) r where "map_of (lru s) (f, t, d) = None"
      "\<forall>r. cached_rate (exchange_rates s) f t d = Some r \<longrightarrow> is_zero r" "res = Inr r"
      "s' = s\<lparr>lookups := lookups s @ [(f, t, d)], fetches := fetches s @ [(f, t, d)],
              exchange_rates := store_rate (exchange_rates s) f t d r,
              lru := take lru_maxsize (((f, t, d), r) # lru s)\<rparr>"
proof (cases "map_of (lru s) (f, t, d)")
  case (Some r)
  with g have "res = Inr r"
    and "s' = s\<lparr>lookups := lookups s @ [(f, t, d)],
              lru := ((f, t, d), r) # filter (\<lambda>p. fst p \<noteq> (f, t, d)) (lru s)\<rparr>"
    by (auto simp: get_exchange_rate_def Let_def)
  with Some show ?thesis by (rule hit)
next
  case None
  let ?s0 = "s\<lparr>lookups := lookups s @ [(f, t, d)]\<rparr>"
  obtain br bs where b: "get_exchange_rate_body api ?s0 f t d = (br, bs)"
    by (cases "get_exchange_rate_body api ?s0 f t d")
  from g None b have g': "(res, s') =
      (case br of Inl e \<Rightarrow> (Inl e, bs)
       | Inr r \<Rightarrow> (Inr r, bs\<lparr>lru := take lru_maxsize (((f, t, d), r) # lru bs)\<rparr>))"
    by (simp add: get_exchange_rate_def Let_def split: sum.splits)
  from body_cases[OF b] consider
      (a) r where "br = Inr r" "bs = ?s0" "cached_rate (exchange_rates s) f t d = Some r" "\<not> is_zero r"
    | (b) e where "br = Inl e" "bs = ?s0\<lparr>fetches := fetches ?s0 @ [(f, t, d)]\<rparr>"
        "\<forall>r. cached_rate (exchange_rates s) f t d = Some r \<longrightarrow> is_zero r"
    | (c) r where "br = Inr r"
        "bs = ?s0\<lparr>fetches := fetches ?s0 @ [(f, t, d)],
                  exchange_rates := store_rate (exchange_rates ?s0) f t d r\<rparr>"
        "\<forall>r. cached_rate (exchange_rates s) f t d = Some r \<longrightarrow> is_zero r"
    by auto
  then show ?thesis
  proof cases
    case a
    with g' have "res = Inr r"
      "s' = s\<lparr>lookups := lookups s @ [(f, t, d)], lru := take lru_maxsize (((f, t, d), r) # lru s)\<rparr>"
      by simp_all
    with None a show ?thesis by (intro held) 
  next
    case b
    with g' have "res = Inl e"
      "s' = s\<lparr>lookups := lookups s @ [(f, t, d)], fetches := fetches s @ [(f, t, d)]\<rparr>"
      by simp_all
    with None b show ?thesis by (intro failed)
  next
    case c
    with g' have "res = Inr r"
      "s' = s\<lparr>lookups := lookups s @ [(f, t, d)], fetches := fetches s @ [(f, t, d)],
              exchange_rates := store_rate (exchange_rates s) f t d r,
              lru := take lru_maxsize (((f, t, d), r) # lru s)\<rparr>"
      by simp_all
    with None c show ?thesis by (intro fetched)
  qed
qed

lemma agree_step:
  assumes a: "caches_agree s" and g: "get_exchange_rate api s f t d = (res, s')"
  shows "caches_agree s'"
  using g
proof (cases rule: get_cases)
  case (hit r)
  show ?thesis unfolding caches_agree_def
  proof (intro allI impI)
    fix f' t' d' r'
    assume m: "map_of (lru s') (f', t', d') = Some r'"
    show "cached_rate (exchange_rates s') f' t' d' = Some r'"
    proof (cases "(f', t', d') = (f, t, d)")
      case True
      with m hit a show ?thesis by (auto simp: caches_agree_def)
    next
      case False
      with m hit have "map_of (lru s) (f', t', d') = Some r'"
        using map_of_filter_other[OF False, of "lru s"] by auto
      with a hit show ?thesis by (simp add: caches_agree_def)
    qed
  qed
next
  case (held r)
  show ?thesis unfolding caches_agree_def
  proof (intro allI impI)
    fix f' t' d' r'
    assume "map_of (lru s') (f', t', d') = Some r'"
    with held have "map_of (((f, t, d), r) # lru s) (f', t', d') = Some r'"
      by (auto dest: map_of_take_Some)
    with a held show "cached_rate (exchange_rates s') f' t' d' = Some r'"
      by (auto simp: caches_agree_def split: if_splits)
  qed
next
  case (failed e)
  with a show ?thesis by (simp add: caches_agree_def)
next
  case (fetched r)
  show ?thesis unfolding caches_agree_def
  proof (intro allI impI)
    fix f' t' d' r'
    assume "map_of (lru s') (f', t', d') = Some r'"
    with fetched have "map_of (((f, t, d), r) # lru s) (f', t', d') = Some r'"
      by (auto dest: map_of_take_Some)
    with a fetched show "cached_rate (exchange_rates s') f' t' d' = Some r'"
      by (auto simp: caches_agree_def cached_rate_store split: if_splits)
  qed
qed

lemma returned_rate_is_held:
  assumes a: "caches_agree s" and g: "get_exchange_rate api s f t d = (Inr r, s')"
  shows "cached_rate (exchange_rates s') f t d = Some r"
  using g
proof (cases rule: get_cases)
  case (hit r')
  with a show ?thesis by (auto simp: caches_agree_def)
next
  case (held r')
  then show ?thesis by simp
next
  case (failed e)
  then show ?thesis by simp
next
  case (fetched r')
  then show ?thesis by (simp add: cached_rate_store)
qed

lemma held_rate_stays:
  assumes h: "cached_rate (exchange_rates s) f t d = Some r" and nz: "\<not> is_zero r"
    and g: "get_exchange_rate api s f' t' d' = (res, s')"
  shows "cached_rate (exchange_rates s') f t d = Some r \<and>
         count_list (fetches s') (f, t, d) = count_list (fetches s) (f, t, d)"
  using g
proof (cases rule: get_cases)
  case (hit r')
  with h show ?thesis by simp
next
  case (held r')
  with h show ?thesis by simp
next
  case (failed e)
  with h nz have "(f', t', d') \<noteq> (f, t, d)" by auto
  with failed h show ?thesis by auto
next
  case (fetched r')
  with h nz have "(f', t', d') \<noteq> (f, t, d)" by auto
  with fetched h show ?thesis by (auto simp: cached_rate_store)
qed

lemma held_rate_returned:
  assumes a: "caches_agree s" and h: "cached_rate (exchange_rates s) f t d = Some r"
    and nz: "\<not> is_zero r"
  shows "fst (get_exchange_rate api s f t d) = Inr r \<and>
         fetches (snd (get_exchange_rate api s f t d)) = fetches s"
proof -
  obtain res s' where g: "get_exchange_rate api s f t d = (res, s')"
    by (cases "get_exchange_rate api s f t d")
  from g show ?thesis
  proof (cases rule: get_cases)
    case (hit r')
    with a h g show ?thesis by (auto simp: caches_agree_def)
  next
    case (held r')
    with h g show ?thesis by simp
  next
    case (failed e)
    with h nz show ?thesis by auto
  next
    case (fetched r')
    with h nz show ?thesis by auto
  qed
qed

lemma lookup_all_keeps:
  "caches_agree s \<Longrightarrow> cached_rate (exchange_rates s) f t d = Some r \<Longrightarrow> \<not> is_zero r \<Longrightarrow>
     caches_agree (lookup_all api s ks) \<and>
     cached_rate (exchange_rates (lookup_all api s ks)) f t d = Some r \<and>
     count_list (fetches (lookup_all api s ks)) (f, t, d) = count_list (fetches s) (f, t, d)"
proof (induction ks arbitrary: s)
  case Nil
  then show ?case by simp
next
  case (Cons k ks)
  obtain f' t' d' where k: "k = (f', t', d')" by (cases k)
  obtain res s' where g: "get_exchange_rate api s f' t' d' = (res, s')"
    by (cases "get_exchange_rate api s f' t' d'")
  from agree_step[OF Cons.prems(1) g] have a': "caches_agree s'" .
  from held_rate_stays[OF Cons.prems(2,3) g]
  have h': "cached_rate (exchange_rates s') f t d = Some r"
    and c': "count_list (fetches s') (f, t, d) = count_list (fetches s) (f, t, d)" by simp_all
  from Cons.IH[OF a' h' Cons.prems(3)] c' g k show ?case by simp
qed

text \<open>
  C3, as claimed: for a fixed key the external fetch is invoked at most once in a
  process lifetime. A fetch that fails leaves nothing in either cache, so the next
  lookup of the key asks the service again: against a service whose first two
  requests fail, four lookups of one key send three requests for it.
\<close>

theorem fetch_repeated_after_failure_counterexample:
  "fetches (lookup_all flaky_api initial_state
      [(''EUR'', ''USD'', Date 2023 3 30), (''EUR'', ''USD'', Date 2023 3 30),
       (''EUR'', ''USD'', Date 2023 3 30), (''EUR'', ''USD'', Date 2023 3 30)])
   = [(''EUR'', ''USD'', Date 2023 3 30), (''EUR'', ''USD'', Date 2023 3 30),
      (''EUR'', ''USD'', Date 2023 3 30)]"
  by code_simp

text \<open>
  C3, amended. Once a lookup of a key has returned a rate that is not zero, then
  after any number of further lookups, of any keys and with any outcome, a lookup of
  the key returns that same rate, the number of requests ever sent for the key is what
  it was when the rate was first returned, and the dictionary still holds the rate.
  The caches agree in every state the module can reach from start-up.
\<close>

theorem cached_rate_never_refetched:
  assumes agree: "caches_agree s"
    and first: "get_exchange_rate api s f t d = (Inr r, s1)"
    and nonzero: "\<not> is_zero r"
  shows "fst (get_exchange_rate api (lookup_all api s1 ks) f t d) = Inr r \<and>
         count_list (fetches (snd (get_exchange_rate api (lookup_all api s1 ks) f t d))) (f, t, d)
           = count_list (fetches s1) (f, t, d) \<and>
         cached_rate (exchange_rates (lookup_all api s1 ks)) f t d = Some r"
proof -
  from agree_step[OF agree first] have a1: "caches_agree s1" .
  from returned_rate_is_held[OF agree first] have h1: "cached_rate (exchange_rates s1) f t d = Some r" .
  let ?s2 = "lookup_all api s1 ks"
  from lookup_all_keeps[OF a1 h1 nonzero, of api ks]
  have a2: "caches_agree ?s2" and h2: "cached_rate (exchange_rates ?s2) f t d = Some r"
    and c2: "count_list (fetches ?s2) (f, t, d) = count_list (fetches s1) (f, t, d)"
    by simp_all
  from held_rate_returned[OF a2 h2 nonzero, of api] c2 h2 show ?thesis by simp
qed

theorem cached_rate_never_refetched_witness:
  "fst (get_exchange_rate sample_api
         (lookup_all sample_api
            (snd (get_exchange_rate sample_api initial_state ''EUR'' ''USD'' (Date 2023 3 30)))
            [(''EUR'', ''CAD'', Date 2023 3 30), (''EUR'', ''USD'', Date 2023 3 30)])
         ''EUR'' ''USD'' (Date 2023 3 30)) = Inr (Dec 108 (- 2)) \<and>
   count_list
     (fetches (snd (get_exchange_rate sample_api
         (lookup_all sample_api
            (snd (get_exchange_rate sample_api initial_state ''EUR'' ''USD'' (Date 2023 3 30)))
            [(''EUR'', ''CAD'', Date 2023 3 30), (''EUR'', ''USD'', Date 2023 3 30)])
         ''EUR'' ''USD'' (Date 2023 3 30))))
     (''EUR'', ''USD'', Date 2023 3 30) = 1"
proof -
  let ?g = "get_exchange_rate sample_api initial_state ''EUR'' ''USD'' (Date 2023 3 30)"
  have agree: "caches_agree initial_state" by (simp add: caches_agree_def initial_state_def)
  have "fst ?g = Inr (Dec 108 (- 2))" by code_simp
  then have first: "?g = (Inr (Dec 108 (- 2)), snd ?g)" by (metis prod.collapse)
  have nonzero: "\<not> is_zero (Dec 108 (- 2))" by (simp add: is_zero_def Dec_def)
  have one: "count_list (fetches (snd ?g)) (''EUR'', ''USD'', Date 2023 3 30) = 1" by code_simp
  from cached_rate_never_refetched[OF agree first nonzero,
      of "[(''EUR'', ''CAD'', Date 2023 3 30), (''EUR'', ''USD'', Date 2023 3 30)]"] one
  show ?thesis by simp
qed


section \<open>One rate for the fields of a target currency\<close>




















end
